theory Spec2Isabelle
  imports Main "HOL-Library.Word"
begin

unbundle bit_operations_syntax

section \<open>DHCPv4 client connection (src/n-dhcp4-c-connection.c)\<close>

text \<open>
  A shallow embedding of the client connection of n-dhcp4: the connection structure, its
  life cycle (init, deinit, listen, connect), the inbound path (dispatch) and the message
  factory with the eight phase operations.

  Conventions.
  \<^item> A C function that returns an \<open>int\<close> and mutates the connection returns, in the model,
    the return code together with the new connection and the new environment.
  \<^item> A failed \<open>assert\<close> is the outcome \<open>Aborted\<close>; a dereference of a null pointer is the
    outcome \<open>Faulted\<close>.
  \<^item> The kernel and the collaborators that are not part of the file (sockets, epoll, the
    message codec) are an explicit environment: a record \<open>world\<close> for what the kernel
    holds, and parameters for the return codes the collaborators choose.
  \<^item> The host is little-endian: \<open>htons\<close> and \<open>htonl\<close> swap bytes and the object
    representation of an integer starts with its least significant byte.
\<close>

subsection \<open>Bytes, memory and byte order\<close>

type_synonym byte = "8 word"

definition memcpy :: "byte list \<Rightarrow> byte list \<Rightarrow> nat \<Rightarrow> byte list" where
  \<comment> \<open>\<open>memcpy(dst, src, n)\<close>: the first \<open>n\<close> bytes of \<open>dst\<close> are replaced by those of \<open>src\<close>.\<close>
  "memcpy dst src n = take n src @ drop n dst"

definition memcmp_differs :: "byte list \<Rightarrow> byte list \<Rightarrow> nat \<Rightarrow> bool" where
  \<comment> \<open>\<open>memcmp(a, b, n) != 0\<close>.\<close>
  "memcmp_differs a b n = (take n a \<noteq> take n b)"

definition htons :: "16 word \<Rightarrow> 16 word" where
  "htons x = push_bit 8 x OR drop_bit 8 x"

definition htonl :: "32 word \<Rightarrow> 32 word" where
  "htonl x = push_bit 24 x OR push_bit 8 (x AND 0xFF00)
             OR (drop_bit 8 x AND 0xFF00) OR drop_bit 24 x"

definition mem16 :: "16 word \<Rightarrow> byte list" where
  \<comment> \<open>The two bytes of a \<open>uint16_t\<close> object, in address order.\<close>
  "mem16 x = [ucast x, ucast (drop_bit 8 x)]"

definition mem32 :: "32 word \<Rightarrow> byte list" where
  \<comment> \<open>The four bytes of a \<open>uint32_t\<close> object (an \<open>in_addr\<close>), in address order.\<close>
  "mem32 x = [ucast x, ucast (drop_bit 8 x), ucast (drop_bit 16 x), ucast (drop_bit 24 x)]"

definition be16 :: "16 word \<Rightarrow> byte list" where
  \<comment> \<open>A 16-bit value in network byte order: most significant byte first.\<close>
  "be16 x = [ucast (drop_bit 8 x), ucast x]"

subsection \<open>Error numbers and protocol constants\<close>

definition ENOENT :: int where "ENOENT = 2"
definition EBADF :: int where "EBADF = 9"
definition EAGAIN :: int where "EAGAIN = 11"
definition ENOMEM :: int where "ENOMEM = 12"
definition EEXIST :: int where "EEXIST = 17"
definition EINVAL :: int where "EINVAL = 22"
definition ENODATA :: int where "ENODATA = 61"
definition ENOBUFS :: int where "ENOBUFS = 105"

definition ARPHRD_INFINIBAND :: byte where "ARPHRD_INFINIBAND = 32"

text \<open>
  Modelled from the spec: the option codes, message types and header constants are
  declared in n-dhcp4-private.h, which is not part of the sources at hand; the values are
  those of the specification (section 6) and of RFC 2131/2132.
\<close>

definition N_DHCP4_OP_BOOTREQUEST :: byte where "N_DHCP4_OP_BOOTREQUEST = 1"
definition N_DHCP4_MESSAGE_FLAG_BROADCAST :: "16 word" where
  "N_DHCP4_MESSAGE_FLAG_BROADCAST = htons 0x8000"

definition N_DHCP4_OPTION_REQUESTED_IP_ADDRESS :: byte where
  "N_DHCP4_OPTION_REQUESTED_IP_ADDRESS = 50"
definition N_DHCP4_OPTION_MESSAGE_TYPE :: byte where "N_DHCP4_OPTION_MESSAGE_TYPE = 53"
definition N_DHCP4_OPTION_SERVER_IDENTIFIER :: byte where
  "N_DHCP4_OPTION_SERVER_IDENTIFIER = 54"
definition N_DHCP4_OPTION_ERROR_MESSAGE :: byte where "N_DHCP4_OPTION_ERROR_MESSAGE = 56"
definition N_DHCP4_OPTION_MAXIMUM_MESSAGE_SIZE :: byte where
  "N_DHCP4_OPTION_MAXIMUM_MESSAGE_SIZE = 57"
definition N_DHCP4_OPTION_CLIENT_IDENTIFIER :: byte where
  "N_DHCP4_OPTION_CLIENT_IDENTIFIER = 61"

definition N_DHCP4_MESSAGE_DISCOVER :: byte where "N_DHCP4_MESSAGE_DISCOVER = 1"
definition N_DHCP4_MESSAGE_REQUEST :: byte where "N_DHCP4_MESSAGE_REQUEST = 3"
definition N_DHCP4_MESSAGE_DECLINE :: byte where "N_DHCP4_MESSAGE_DECLINE = 4"
definition N_DHCP4_MESSAGE_RELEASE :: byte where "N_DHCP4_MESSAGE_RELEASE = 7"
definition N_DHCP4_MESSAGE_INFORM :: byte where "N_DHCP4_MESSAGE_INFORM = 8"

definition N_DHCP4_NETWORK_UDP_MAX_SIZE :: "16 word" where
  \<comment> \<open>Modelled from the spec: the macro is not defined in the sources at hand; section 6
      of the specification gives \<open>UDP_MAX_SIZE = 576\<close>.\<close>
  "N_DHCP4_NETWORK_UDP_MAX_SIZE = 576"

definition N_DHCP4_OVERLOAD_FILE :: nat where "N_DHCP4_OVERLOAD_FILE = 1"
definition N_DHCP4_OVERLOAD_SNAME :: nat where "N_DHCP4_OVERLOAD_SNAME = 2"

subsection \<open>Messages of the codec\<close>

text \<open>
  Modelled from the spec: the codec (NDhcp4Header, NDhcp4Incoming, NDhcp4Outgoing and
  their functions) lives in files that are not part of the sources at hand. A message
  carries a BOOTP header and a sequence of typed options; \<open>query\<close> answers with the value
  of an option or NODATA; \<open>append\<close> adds an option or reports that it does not fit.
\<close>

record NDhcp4Header =
  hdr_op :: byte
  hdr_htype :: byte
  hdr_hlen :: byte
  hdr_xid :: "32 word"
  hdr_secs :: "32 word"
  hdr_flags :: "16 word"
  hdr_ciaddr :: "32 word"
  hdr_chaddr :: "byte list"

definition zero_header :: NDhcp4Header where
  "zero_header = \<lparr>hdr_op = 0, hdr_htype = 0, hdr_hlen = 0, hdr_xid = 0, hdr_secs = 0,
     hdr_flags = 0, hdr_ciaddr = 0, hdr_chaddr = replicate 16 0\<rparr>"

record NDhcp4Incoming =
  in_header :: NDhcp4Header
  in_options :: "(byte \<times> byte list) list"

definition n_dhcp4_incoming_get_header :: "NDhcp4Incoming \<Rightarrow> NDhcp4Header" where
  "n_dhcp4_incoming_get_header message = in_header message"

definition n_dhcp4_incoming_query :: "NDhcp4Incoming \<Rightarrow> byte \<Rightarrow> int \<times> byte list" where
  \<comment> \<open>Modelled from the spec: \<open>query(option)\<close> gives the bytes of the option or NODATA.
      The result is the return code and, when it is 0, the bytes stored through the
      out-parameters.\<close>
  "n_dhcp4_incoming_query message option =
     (case map_of (in_options message) option of
        None \<Rightarrow> (- ENODATA, [])
      | Some v \<Rightarrow> (0, v))"

record NDhcp4Outgoing =
  out_header :: NDhcp4Header
  out_options :: "(byte \<times> byte list) list"
  out_overload :: nat
  out_room :: nat

definition n_dhcp4_outgoing_new :: "nat option \<Rightarrow> nat \<Rightarrow> int + NDhcp4Outgoing" where
  \<comment> \<open>Modelled from the spec: a new message with a zeroed header and no options. The
      allocator grants room for the options (in bytes), or has no memory.\<close>
  "n_dhcp4_outgoing_new grant overload =
     (case grant of
        None \<Rightarrow> Inl (- ENOMEM)
      | Some n \<Rightarrow> Inr \<lparr>out_header = zero_header, out_options = [],
                       out_overload = overload, out_room = n\<rparr>)"

definition options_size :: "(byte \<times> byte list) list \<Rightarrow> nat" where
  \<comment> \<open>Every option takes a code byte, a length byte and its value.\<close>
  "options_size os = sum_list (map (\<lambda>(k, v). 2 + length v) os)"

definition n_dhcp4_outgoing_append ::
  "NDhcp4Outgoing \<Rightarrow> byte \<Rightarrow> byte list \<Rightarrow> int + NDhcp4Outgoing" where
  \<comment> \<open>Modelled from the spec: \<open>append(option, bytes)\<close> adds the option at the end, or
      reports an overflow and leaves the message as it was.\<close>
  "n_dhcp4_outgoing_append message option data =
     (if options_size (out_options message) + 2 + length data \<le> out_room message
      then Inr (message\<lparr>out_options := out_options message @ [(option, data)]\<rparr>)
      else Inl (- ENOBUFS))"

definition option_values :: "byte \<Rightarrow> NDhcp4Outgoing \<Rightarrow> byte list list" where
  \<comment> \<open>The values of all options of a message that carry the given code, in order.\<close>
  "option_values option message =
     map snd (filter (\<lambda>kv. fst kv = option) (out_options message))"

subsection \<open>The environment: descriptors, the readiness notifier, the network\<close>

text \<open>
  The kernel side of the connection. \<open>interest\<close> is the interest list of the epoll
  instance behind \<open>*connection->efdp\<close>, \<open>open_fds\<close> the open descriptors, \<open>shut_fds\<close> the
  packet sockets shut down for further reads, \<open>rx fd\<close> what is queued on a socket (a
  datagram or a pending socket error), and \<open>tx_log\<close> every message handed to a send
  primitive of the network collaborator, with the code that primitive returned.
\<close>

datatype rx_event = Datagram "byte list" | RxError int

datatype transport = PACKET_BROADCAST | UDP_BROADCAST | UDP_SEND

record tx_event =
  tx_transport :: transport
  tx_fd :: int
  tx_message :: NDhcp4Outgoing
  tx_result :: int

record world =
  efd :: int
  interest :: "int list"
  open_fds :: "int list"
  shut_fds :: "int list"
  rx :: "int \<Rightarrow> rx_event list"
  tx_log :: "tx_event list"

datatype epoll_op = EPOLL_CTL_ADD | EPOLL_CTL_DEL

definition epoll_ctl :: "world \<Rightarrow> epoll_op \<Rightarrow> int \<Rightarrow> int option \<Rightarrow> int option \<times> world" where
  \<comment> \<open>epoll_ctl(2) on the notifier. The result is \<open>None\<close> for 0 and \<open>Some e\<close> for -1 with
      \<open>errno = e\<close>. \<open>fault\<close> is a failure of the kernel's own (ENOMEM, ENOSPC).\<close>
  "epoll_ctl w op fd fault =
     (case fault of
        Some e \<Rightarrow> (Some e, w)
      | None \<Rightarrow>
          if fd \<notin> set (open_fds w) then (Some EBADF, w)
          else (case op of
                  EPOLL_CTL_ADD \<Rightarrow>
                    if fd \<in> set (interest w) then (Some EEXIST, w)
                    else (None, w\<lparr>interest := fd # interest w\<rparr>)
                | EPOLL_CTL_DEL \<Rightarrow>
                    if fd \<notin> set (interest w) then (Some ENOENT, w)
                    else (None, w\<lparr>interest := removeAll fd (interest w)\<rparr>)))"

definition close_fd :: "world \<Rightarrow> int \<Rightarrow> world" where
  "close_fd w fd = w\<lparr>open_fds := removeAll fd (open_fds w)\<rparr>"

definition sock_recv :: "world \<Rightarrow> int \<Rightarrow> (int + byte list) \<times> world" where
  \<comment> \<open>A read of up to 64 KiB from a non-blocking socket: \<open>Inr\<close> the bytes received,
      \<open>Inl e\<close> for -1 with \<open>errno = e\<close>; an empty queue would block.\<close>
  "sock_recv w fd =
     (if fd \<notin> set (open_fds w) then (Inl EBADF, w)
      else (case rx w fd of
              [] \<Rightarrow> (Inl EAGAIN, w)
            | Datagram bs # q \<Rightarrow> (Inr (take (2 ^ 16) bs), w\<lparr>rx := (rx w)(fd := q)\<rparr>)
            | RxError e # q \<Rightarrow> (Inl e, w\<lparr>rx := (rx w)(fd := q)\<rparr>)))"

text \<open>
  Modelled from the spec: the socket constructors, \<open>packet_shutdown\<close> and the send
  primitives belong to the network collaborator (n-dhcp4-network.c, util/packet.c), which
  is not part of the sources at hand. Each takes the return code the collaborator chooses;
  a constructor stores the new descriptor only when it succeeds.
\<close>

definition socket_new :: "int \<times> int \<Rightarrow> world \<Rightarrow> int \<Rightarrow> int \<times> int \<times> world" where
  \<comment> \<open>Modelled from the spec: opening a socket. \<open>(r, fd)\<close> is the collaborator's answer,
      \<open>old\<close> the descriptor field before the call. The result is the return code, the
      descriptor field and the environment.\<close>
  "socket_new answer w old =
     (case answer of (r, fd) \<Rightarrow>
        if r < 0 then (r, old, w) else (r, fd, w\<lparr>open_fds := fd # open_fds w\<rparr>))"

definition n_dhcp4_network_client_packet_socket_new ::
  "int \<times> int \<Rightarrow> world \<Rightarrow> int \<Rightarrow> int \<Rightarrow> int \<times> int \<times> world" where
  "n_dhcp4_network_client_packet_socket_new answer w old ifindex = socket_new answer w old"

definition n_dhcp4_network_client_udp_socket_new ::
  "int \<times> int \<Rightarrow> world \<Rightarrow> int \<Rightarrow> int \<Rightarrow> 32 word \<Rightarrow> 32 word \<Rightarrow> int \<times> int \<times> world" where
  "n_dhcp4_network_client_udp_socket_new answer w old ifindex client server =
     socket_new answer w old"

definition packet_shutdown :: "int \<Rightarrow> world \<Rightarrow> int \<Rightarrow> int \<times> world" where
  \<comment> \<open>Modelled from the spec: the packet socket is shut down for further reads; what is
      queued stays readable. \<open>r\<close> is the collaborator's return code.\<close>
  "packet_shutdown r w fd = (if r < 0 then (r, w) else (r, w\<lparr>shut_fds := fd # shut_fds w\<rparr>))"

definition packet_recv_udp :: "world \<Rightarrow> int \<Rightarrow> (int + byte list) \<times> world" where
  \<comment> \<open>Modelled from the spec: the link-layer receive; it yields the UDP payload of the
      next frame queued on the packet socket.\<close>
  "packet_recv_udp w fd = sock_recv w fd"

definition network_send :: "transport \<Rightarrow> int \<Rightarrow> world \<Rightarrow> int \<Rightarrow> NDhcp4Outgoing \<Rightarrow> int \<times> world" where
  \<comment> \<open>Modelled from the spec: a send primitive of the network collaborator. \<open>r\<close> is its
      return code; the message handed over is logged with it.\<close>
  "network_send t r w fd message =
     (r, w\<lparr>tx_log := tx_log w @
            [\<lparr>tx_transport = t, tx_fd = fd, tx_message = message, tx_result = r\<rparr>]\<rparr>)"

subsection \<open>The connection\<close>

datatype conn_state =
    N_DHCP4_CONNECTION_STATE_INIT
  | N_DHCP4_CONNECTION_STATE_PACKET
  | N_DHCP4_CONNECTION_STATE_DRAINING
  | N_DHCP4_CONNECTION_STATE_UDP

fun state_value :: "conn_state \<Rightarrow> nat" where
  "state_value N_DHCP4_CONNECTION_STATE_INIT = 0"
| "state_value N_DHCP4_CONNECTION_STATE_PACKET = 1"
| "state_value N_DHCP4_CONNECTION_STATE_DRAINING = 2"
| "state_value N_DHCP4_CONNECTION_STATE_UDP = 3"

text \<open>
  Modelled from the spec: \<open>struct NDhcp4CConnection\<close> and its initial value
  \<open>N_DHCP4_C_CONNECTION_NULL\<close> are declared in n-dhcp4-private.h, which is not part of the
  sources at hand. The fields are those the code reads and writes; \<open>chaddr\<close> and \<open>bhaddr\<close>
  are arrays of 16 bytes (the bound of \<open>hlen\<close>), \<open>id_bytes\<close> is the buffer \<open>id\<close>, \<open>mtu\<close> is
  the 16-bit value handed to \<open>htons\<close>. The initial value is the zeroed connection in state
  INIT with both descriptors absent (-1).
\<close>

record NDhcp4CConnection =
  state :: conn_state
  ifindex :: int
  pfd :: int
  ufd :: int
  htype :: byte
  hlen :: byte
  chaddr :: "byte list"
  bhaddr :: "byte list"
  idlen :: nat
  id_bytes :: "byte list"
  request_broadcast :: bool
  send_chaddr :: bool
  mtu :: "16 word"
  ciaddr :: "32 word"
  siaddr :: "32 word"

definition N_DHCP4_C_CONNECTION_NULL :: NDhcp4CConnection where
  \<comment> \<open>Modelled from the spec: the zeroed connection, state INIT, both descriptors absent.\<close>
  "N_DHCP4_C_CONNECTION_NULL =
     \<lparr>state = N_DHCP4_CONNECTION_STATE_INIT, ifindex = 0, pfd = - 1, ufd = - 1,
      htype = 0, hlen = 0, chaddr = replicate 16 0, bhaddr = replicate 16 0,
      idlen = 0, id_bytes = [], request_broadcast = False, send_chaddr = False,
      mtu = 0, ciaddr = 0, siaddr = 0\<rparr>"

datatype 'a outcome = Aborted | Faulted | Returned 'a

subsection \<open>Life cycle\<close>

definition n_dhcp4_c_connection_init ::
  "NDhcp4CConnection \<Rightarrow> int \<Rightarrow> byte \<Rightarrow> byte \<Rightarrow> byte list \<Rightarrow> byte list \<Rightarrow> nat \<Rightarrow> byte list
     \<Rightarrow> bool \<Rightarrow> int \<times> NDhcp4CConnection" where
  "n_dhcp4_c_connection_init connection ifindex' htype' hlen' chaddr' bhaddr' idlen' id' rb =
     (if unat hlen' > 16 then (- EINVAL, connection)
      else if idlen' = 1 then (- EINVAL, connection)
      else
        let c1 = connection\<lparr>ifindex := ifindex', htype := htype', hlen := hlen',
                   request_broadcast := rb\<rparr>;
            c2 = c1\<lparr>bhaddr := memcpy (bhaddr c1) bhaddr' (unat hlen')\<rparr>;
            c3 = c2\<lparr>chaddr := memcpy (chaddr c2) chaddr' (unat hlen')\<rparr>;
            c4 = c3\<lparr>id_bytes := memcpy (id_bytes c3) id' idlen'\<rparr>;
            c5 = (if htype' = ARPHRD_INFINIBAND then c4\<lparr>request_broadcast := True\<rparr>
                  else c4\<lparr>send_chaddr := True\<rparr>)
        in (0, c5))"

definition n_dhcp4_c_connection_deinit ::
  "NDhcp4CConnection \<Rightarrow> world \<Rightarrow> NDhcp4CConnection \<times> world" where
  "n_dhcp4_c_connection_deinit connection w =
     (let w1 = (if efd w \<ge> 0 then
                  let wa = (if ufd connection \<ge> 0
                            then close_fd (snd (epoll_ctl w EPOLL_CTL_DEL (ufd connection) None))
                                   (ufd connection)
                            else w)
                  in (if pfd connection \<ge> 0
                      then close_fd (snd (epoll_ctl wa EPOLL_CTL_DEL (pfd connection) None))
                             (pfd connection)
                      else wa)
                else w)
      in (N_DHCP4_C_CONNECTION_NULL, w1))"

definition n_dhcp4_c_connection_listen ::
  "int \<times> int \<Rightarrow> int option \<Rightarrow> NDhcp4CConnection \<Rightarrow> world
     \<Rightarrow> (int \<times> NDhcp4CConnection \<times> world) outcome" where
  "n_dhcp4_c_connection_listen sock ep_fault connection w =
     (if state connection \<noteq> N_DHCP4_CONNECTION_STATE_INIT then Aborted
      else
        (case n_dhcp4_network_client_packet_socket_new sock w (pfd connection)
                (ifindex connection) of
           (r, fd, w1) \<Rightarrow>
             if r < 0 then Returned (r, connection, w1)
             else
               let c1 = connection\<lparr>pfd := fd\<rparr> in
               (case epoll_ctl w1 EPOLL_CTL_ADD (pfd c1) ep_fault of
                  (Some e, w2) \<Rightarrow> Returned (- e, c1, w2)
                | (None, w2) \<Rightarrow>
                    Returned (0, c1\<lparr>state := N_DHCP4_CONNECTION_STATE_PACKET\<rparr>, w2))))"

definition n_dhcp4_c_connection_connect ::
  "int \<times> int \<Rightarrow> int option \<Rightarrow> int \<Rightarrow> NDhcp4CConnection \<Rightarrow> world \<Rightarrow> 32 word \<Rightarrow> 32 word
     \<Rightarrow> (int \<times> NDhcp4CConnection \<times> world) outcome" where
  "n_dhcp4_c_connection_connect sock ep_fault shut connection w client server =
     (if state connection \<noteq> N_DHCP4_CONNECTION_STATE_PACKET then Aborted
      else
        (case n_dhcp4_network_client_udp_socket_new sock w (ufd connection)
                (ifindex connection) client server of
           (r, fd, w1) \<Rightarrow>
             if r < 0 then Returned (r, connection, w1)
             else
               let c1 = connection\<lparr>ufd := fd\<rparr> in
               (case epoll_ctl w1 EPOLL_CTL_ADD (pfd c1) ep_fault of
                  (Some e, w2) \<Rightarrow> Returned (- e, c1, w2)
                | (None, w2) \<Rightarrow>
                    (case packet_shutdown shut w2 (pfd c1) of
                       (r', w3) \<Rightarrow>
                         if r' < 0 then Returned (r', c1, w3)
                         else Returned (0, c1\<lparr>ciaddr := client, siaddr := server,
                                 state := N_DHCP4_CONNECTION_STATE_DRAINING\<rparr>, w3)))))"

subsection \<open>Dispatch: the inbound path\<close>

text \<open>
  The parser \<open>n_dhcp4_incoming_new\<close> belongs to the codec and is a parameter: for the
  bytes received it gives its return code and the message it stored (if any).
\<close>

type_synonym parser = "byte list \<Rightarrow> int \<times> NDhcp4Incoming option"

definition n_dhcp4_c_connection_verify_incoming ::
  "NDhcp4CConnection \<Rightarrow> NDhcp4Incoming option \<Rightarrow> int outcome" where
  \<comment> \<open>The header of a null message is read by the first \<open>memcmp\<close>: a null dereference.\<close>
  "n_dhcp4_c_connection_verify_incoming connection message =
     (case message of
        None \<Rightarrow> Faulted
      | Some m \<Rightarrow>
          let header = n_dhcp4_incoming_get_header m in
          if memcmp_differs (chaddr connection) (hdr_chaddr header) (unat (hlen connection))
          then Returned (- EINVAL)
          else
            (case n_dhcp4_incoming_query m N_DHCP4_OPTION_CLIENT_IDENTIFIER of
               (r, data) \<Rightarrow>
                 if r \<noteq> - ENODATA \<and> r < 0 then Returned r
                 else
                   let id' = (if r = - ENODATA then [] else data);
                       idlen' = (if r = - ENODATA then 0 else length data)
                   in if idlen' \<noteq> idlen connection then Returned (- EINVAL)
                      else if memcmp_differs (id_bytes connection) id' idlen'
                      then Returned (- EINVAL)
                      else Returned 0))"

definition dispatch_recv ::
  "parser \<Rightarrow> (int + byte list) \<times> world \<Rightarrow> int \<times> NDhcp4Incoming option \<times> world" where
  \<comment> \<open>What \<open>dispatch_packet\<close> and \<open>dispatch_udp\<close> do with the result of their read: the
      return code, the message stored through \<open>messagep\<close>, and the environment.\<close>
  "dispatch_recv parse received =
     (case received of
        (Inr buf, w') \<Rightarrow>
          if length buf = 0 then (0, None, w')
          else (case parse buf of (r, m) \<Rightarrow> if r < 0 then (r, None, w') else (0, m, w'))
      | (Inl e, w') \<Rightarrow> (- e, None, w'))"

definition n_dhcp4_c_connection_dispatch_packet ::
  "parser \<Rightarrow> NDhcp4CConnection \<Rightarrow> world \<Rightarrow> int \<times> NDhcp4Incoming option \<times> world" where
  "n_dhcp4_c_connection_dispatch_packet parse connection w =
     dispatch_recv parse (packet_recv_udp w (pfd connection))"

definition n_dhcp4_c_connection_dispatch_udp ::
  "parser \<Rightarrow> NDhcp4CConnection \<Rightarrow> world \<Rightarrow> int \<times> NDhcp4Incoming option \<times> world" where
  "n_dhcp4_c_connection_dispatch_udp parse connection w =
     dispatch_recv parse (sock_recv w (ufd connection))"

text \<open>
  The \<open>switch\<close> of \<open>dispatch\<close>: \<open>Inl\<close> is a \<open>return\<close> from inside the switch (the return
  code, the connection and the environment), \<open>Inr\<close> leaves the switch with the local
  \<open>message\<close>. State INIT has no case: control leaves the switch with \<open>message = NULL\<close>.
\<close>

definition switch_udp ::
  "parser \<Rightarrow> NDhcp4CConnection \<Rightarrow> world
     \<Rightarrow> (int \<times> NDhcp4CConnection \<times> world) + (NDhcp4Incoming option \<times> NDhcp4CConnection \<times> world)"
  where
  "switch_udp parse connection w =
     (case n_dhcp4_c_connection_dispatch_udp parse connection w of
        (r, m, w1) \<Rightarrow> if r < 0 then Inl (r, connection, w1) else Inr (m, connection, w1))"

definition dispatch_switch ::
  "parser \<Rightarrow> NDhcp4CConnection \<Rightarrow> world
     \<Rightarrow> (int \<times> NDhcp4CConnection \<times> world) + (NDhcp4Incoming option \<times> NDhcp4CConnection \<times> world)"
  where
  "dispatch_switch parse connection w =
     (case state connection of
        N_DHCP4_CONNECTION_STATE_INIT \<Rightarrow> Inr (None, connection, w)
      | N_DHCP4_CONNECTION_STATE_PACKET \<Rightarrow>
          (case n_dhcp4_c_connection_dispatch_packet parse connection w of
             (r, m, w1) \<Rightarrow> if r < 0 then Inl (r, connection, w1) else Inr (m, connection, w1))
      | N_DHCP4_CONNECTION_STATE_DRAINING \<Rightarrow>
          (case n_dhcp4_c_connection_dispatch_packet parse connection w of
             (r, m, w1) \<Rightarrow>
               if r \<ge> 0 then Inr (m, connection, w1)
               else if r \<noteq> - EAGAIN then Inl (r, connection, w1)
               else
                 let w2 = snd (epoll_ctl w1 EPOLL_CTL_DEL (pfd connection) None);
                     w3 = close_fd w2 (pfd connection);
                     c1 = connection\<lparr>state := N_DHCP4_CONNECTION_STATE_UDP\<rparr>
                 in switch_udp parse c1 w3)
      | N_DHCP4_CONNECTION_STATE_UDP \<Rightarrow> switch_udp parse connection w)"

text \<open>
  The result of \<open>dispatch\<close> is its return code, the message written to \<open>*messagep\<close>
  (\<open>None\<close> when nothing is written: the caller's null pointer stays), the connection and
  the environment.
\<close>

definition n_dhcp4_c_connection_dispatch ::
  "parser \<Rightarrow> NDhcp4CConnection \<Rightarrow> world
     \<Rightarrow> (int \<times> NDhcp4Incoming option \<times> NDhcp4CConnection \<times> world) outcome" where
  "n_dhcp4_c_connection_dispatch parse connection w =
     (case dispatch_switch parse connection w of
        Inl (r, c', w') \<Rightarrow> Returned (r, None, c', w')
      | Inr (message, c', w') \<Rightarrow>
          (case n_dhcp4_c_connection_verify_incoming c' message of
             Aborted \<Rightarrow> Aborted
           | Faulted \<Rightarrow> Faulted
           | Returned r \<Rightarrow>
               if r < 0 then Returned (0, None, c', w')
               else Returned (0, message, c', w')))"

subsection \<open>The message factory\<close>

definition n_dhcp4_c_connection_init_header ::
  "NDhcp4CConnection \<Rightarrow> NDhcp4Header \<Rightarrow> NDhcp4Header outcome" where
  "n_dhcp4_c_connection_init_header connection header =
     (let h1 = header\<lparr>hdr_op := N_DHCP4_OP_BOOTREQUEST, hdr_htype := htype connection,
                 hdr_ciaddr := ciaddr connection\<rparr>;
          h2 = (if request_broadcast connection
                then h1\<lparr>hdr_flags := hdr_flags h1 OR N_DHCP4_MESSAGE_FLAG_BROADCAST\<rparr>
                else h1)
      in if send_chaddr connection then
           (if unat (hlen connection) > 16 then Aborted
            else Returned (h2\<lparr>hdr_hlen := hlen connection,
                   hdr_chaddr := memcpy (hdr_chaddr h2) (chaddr connection)
                                   (unat (hlen connection))\<rparr>))
         else Returned h2)"

definition max_message_size ::
  "NDhcp4CConnection \<Rightarrow> byte \<Rightarrow> NDhcp4Outgoing \<Rightarrow> int + NDhcp4Outgoing" where
  \<comment> \<open>The \<open>switch (type)\<close> at the end of \<open>new_message\<close>.\<close>
  "max_message_size connection type message =
     (if type = N_DHCP4_MESSAGE_DISCOVER \<or> type = N_DHCP4_MESSAGE_REQUEST
         \<or> type = N_DHCP4_MESSAGE_INFORM
      then
        (if state_value (state connection) \<le> state_value N_DHCP4_CONNECTION_STATE_PACKET
         then
           (if mtu connection > 0
            then n_dhcp4_outgoing_append message N_DHCP4_OPTION_MAXIMUM_MESSAGE_SIZE
                   (mem16 (htons (mtu connection)))
            else Inr message)
         else n_dhcp4_outgoing_append message N_DHCP4_OPTION_MAXIMUM_MESSAGE_SIZE
                (mem16 (htons N_DHCP4_NETWORK_UDP_MAX_SIZE)))
      else Inr message)"

definition n_dhcp4_c_connection_new_message ::
  "nat option \<Rightarrow> NDhcp4CConnection \<Rightarrow> byte \<Rightarrow> (int + NDhcp4Outgoing) outcome" where
  "n_dhcp4_c_connection_new_message grant connection type =
     (case n_dhcp4_outgoing_new grant (N_DHCP4_OVERLOAD_FILE + N_DHCP4_OVERLOAD_SNAME) of
        Inl r \<Rightarrow> Returned (Inl r)
      | Inr m0 \<Rightarrow>
          (case n_dhcp4_c_connection_init_header connection (out_header m0) of
             Aborted \<Rightarrow> Aborted
           | Faulted \<Rightarrow> Faulted
           | Returned header \<Rightarrow>
               (case n_dhcp4_outgoing_append (m0\<lparr>out_header := header\<rparr>)
                       N_DHCP4_OPTION_MESSAGE_TYPE [type] of
                  Inl r \<Rightarrow> Returned (Inl r)
                | Inr m1 \<Rightarrow>
                    (case (if idlen connection \<noteq> 0
                           then n_dhcp4_outgoing_append m1 N_DHCP4_OPTION_CLIENT_IDENTIFIER
                                  (take (idlen connection) (id_bytes connection))
                           else Inr m1) of
                       Inl r \<Rightarrow> Returned (Inl r)
                     | Inr m2 \<Rightarrow> Returned (max_message_size connection type m2)))))"

definition n_dhcp4_c_connection_outgoing_set_xid ::
  "NDhcp4Outgoing \<Rightarrow> 32 word \<Rightarrow> 32 word \<Rightarrow> NDhcp4Outgoing outcome" where
  "n_dhcp4_c_connection_outgoing_set_xid message xid secs =
     (if secs = 0 then Aborted
      else Returned (message\<lparr>out_header :=
             (out_header message)\<lparr>hdr_secs := htonl secs, hdr_xid := xid\<rparr>\<rparr>))"

subsection \<open>Send primitives\<close>

definition n_dhcp4_c_connection_packet_broadcast ::
  "int \<Rightarrow> NDhcp4CConnection \<Rightarrow> world \<Rightarrow> NDhcp4Outgoing \<Rightarrow> (int \<times> world) outcome" where
  "n_dhcp4_c_connection_packet_broadcast tx connection w message =
     (if state connection \<noteq> N_DHCP4_CONNECTION_STATE_PACKET then Aborted
      else (case network_send PACKET_BROADCAST tx w (pfd connection) message of
              (r, w') \<Rightarrow> if r < 0 then Returned (r, w') else Returned (0, w')))"

definition n_dhcp4_c_connection_udp_broadcast ::
  "int \<Rightarrow> NDhcp4CConnection \<Rightarrow> world \<Rightarrow> NDhcp4Outgoing \<Rightarrow> (int \<times> world) outcome" where
  "n_dhcp4_c_connection_udp_broadcast tx connection w message =
     (if \<not> state_value (state connection) > state_value N_DHCP4_CONNECTION_STATE_PACKET
      then Aborted
      else (case network_send UDP_BROADCAST tx w (ufd connection) message of
              (r, w') \<Rightarrow> if r < 0 then Returned (r, w') else Returned (0, w')))"

definition n_dhcp4_c_connection_udp_send ::
  "int \<Rightarrow> NDhcp4CConnection \<Rightarrow> world \<Rightarrow> NDhcp4Outgoing \<Rightarrow> (int \<times> world) outcome" where
  "n_dhcp4_c_connection_udp_send tx connection w message =
     (if \<not> state_value (state connection) > state_value N_DHCP4_CONNECTION_STATE_PACKET
      then Aborted
      else (case network_send UDP_SEND tx w (ufd connection) message of
              (r, w') \<Rightarrow> if r < 0 then Returned (r, w') else Returned (0, w')))"

subsection \<open>The phase operations\<close>

text \<open>
  \<open>on_outcome\<close> continues after a call that may abort; \<open>on_message\<close> is the pattern
  \<open>r = f(...); if (r < 0) return r;\<close> of a call that yields a message or an error code.
  \<open>grant\<close> is the room the codec's allocator grants the message, \<open>tx\<close> the return code of
  the network collaborator's send primitive. A string \<open>error\<close> is its characters, without
  the terminating NUL; a null pointer is \<open>None\<close>.
\<close>

definition on_outcome :: "'a outcome \<Rightarrow> ('a \<Rightarrow> 'b outcome) \<Rightarrow> 'b outcome" where
  "on_outcome x k = (case x of Aborted \<Rightarrow> Aborted | Faulted \<Rightarrow> Faulted | Returned a \<Rightarrow> k a)"

definition on_message ::
  "int + NDhcp4Outgoing \<Rightarrow> world \<Rightarrow> (NDhcp4Outgoing \<Rightarrow> (int \<times> world) outcome)
     \<Rightarrow> (int \<times> world) outcome" where
  "on_message x w k = (case x of Inl r \<Rightarrow> Returned (r, w) | Inr m \<Rightarrow> k m)"

definition n_dhcp4_c_connection_discover ::
  "nat option \<Rightarrow> int \<Rightarrow> NDhcp4CConnection \<Rightarrow> world \<Rightarrow> 32 word \<Rightarrow> 32 word
     \<Rightarrow> (int \<times> world) outcome" where
  "n_dhcp4_c_connection_discover grant tx connection w xid secs =
     on_outcome (n_dhcp4_c_connection_new_message grant connection N_DHCP4_MESSAGE_DISCOVER)
       (\<lambda>x. on_message x w
       (\<lambda>m. on_outcome (n_dhcp4_c_connection_outgoing_set_xid m xid secs)
       (\<lambda>m1. n_dhcp4_c_connection_packet_broadcast tx connection w m1)))"


definition n_dhcp4_c_connection_reboot ::
  "nat option \<Rightarrow> int \<Rightarrow> NDhcp4CConnection \<Rightarrow> world \<Rightarrow> 32 word \<Rightarrow> 32 word \<Rightarrow> 32 word
     \<Rightarrow> (int \<times> world) outcome" where
  "n_dhcp4_c_connection_reboot grant tx connection w client xid secs =
     on_outcome (n_dhcp4_c_connection_new_message grant connection N_DHCP4_MESSAGE_REQUEST)
       (\<lambda>x. on_message x w
       (\<lambda>m. on_outcome (n_dhcp4_c_connection_outgoing_set_xid m xid secs)
       (\<lambda>m1. on_message
                (n_dhcp4_outgoing_append m1 N_DHCP4_OPTION_REQUESTED_IP_ADDRESS (mem32 client)) w
       (\<lambda>m2. n_dhcp4_c_connection_packet_broadcast tx connection w m2))))"



definition append_error ::
  "byte list option \<Rightarrow> NDhcp4Outgoing \<Rightarrow> int + NDhcp4Outgoing" where
  \<comment> \<open>\<open>if (error) append(ERROR_MESSAGE, error, strlen(error) + 1)\<close>.\<close>
  "append_error error message =
     (case error of
        None \<Rightarrow> Inr message
      | Some text \<Rightarrow> n_dhcp4_outgoing_append message N_DHCP4_OPTION_ERROR_MESSAGE (text @ [0]))"


definition n_dhcp4_c_connection_inform ::
  "nat option \<Rightarrow> int \<Rightarrow> NDhcp4CConnection \<Rightarrow> world \<Rightarrow> 32 word \<Rightarrow> 32 word
     \<Rightarrow> (int \<times> world) outcome" where
  "n_dhcp4_c_connection_inform grant tx connection w xid secs =
     on_outcome (n_dhcp4_c_connection_new_message grant connection N_DHCP4_MESSAGE_INFORM)
       (\<lambda>x. on_message x w
       (\<lambda>m. on_outcome (n_dhcp4_c_connection_outgoing_set_xid m xid secs)
       (\<lambda>m1. n_dhcp4_c_connection_udp_broadcast tx connection w m1)))"


definition handed_over :: "world \<Rightarrow> world \<Rightarrow> NDhcp4Outgoing list" where
  \<comment> \<open>The messages handed to the network between two environments.\<close>
  "handed_over w w' = map tx_message (drop (length (tx_log w)) (tx_log w'))"

subsection \<open>Notions of the specification\<close>

definition max_message_size_options ::
  "NDhcp4CConnection \<Rightarrow> byte \<Rightarrow> (byte \<times> byte list) list" where
  \<comment> \<open>The MAXIMUM_MESSAGE_SIZE options the specification asks for, by message type, state
      and MTU.\<close>
  "max_message_size_options c t =
     (if t = N_DHCP4_MESSAGE_DISCOVER \<or> t = N_DHCP4_MESSAGE_REQUEST
         \<or> t = N_DHCP4_MESSAGE_INFORM
      then (if state c = N_DHCP4_CONNECTION_STATE_DRAINING
               \<or> state c = N_DHCP4_CONNECTION_STATE_UDP
            then [(N_DHCP4_OPTION_MAXIMUM_MESSAGE_SIZE, be16 N_DHCP4_NETWORK_UDP_MAX_SIZE)]
            else if mtu c > 0 then [(N_DHCP4_OPTION_MAXIMUM_MESSAGE_SIZE, be16 (mtu c))]
            else [])
      else [])"

definition client_identifier :: "NDhcp4Incoming \<Rightarrow> byte list" where
  \<comment> \<open>The client-identifier option of an inbound message; an absent option counts as
      the empty identifier.\<close>
  "client_identifier m =
     (case n_dhcp4_incoming_query m N_DHCP4_OPTION_CLIENT_IDENTIFIER of
        (r, data) \<Rightarrow> if r = - ENODATA then [] else data)"

definition connection_id :: "NDhcp4CConnection \<Rightarrow> byte list" where
  \<comment> \<open>The client identifier of the connection: the first \<open>idlen\<close> bytes of \<open>id\<close>.\<close>
  "connection_id c = take (idlen c) (id_bytes c)"

definition chaddr_matches :: "NDhcp4CConnection \<Rightarrow> NDhcp4Incoming \<Rightarrow> bool" where
  "chaddr_matches c m =
     (take (unat (hlen c)) (hdr_chaddr (in_header m)) = take (unat (hlen c)) (chaddr c))"

definition identity_mismatch :: "NDhcp4CConnection \<Rightarrow> NDhcp4Incoming \<Rightarrow> bool" where
  "identity_mismatch c m =
     (\<not> chaddr_matches c m
      \<or> length (client_identifier m) \<noteq> idlen c
      \<or> client_identifier m \<noteq> connection_id c)"

subsection \<open>Sample values for the worked examples\<close>

definition sample_world :: world where
  \<comment> \<open>Before \<open>listen\<close>: only the notifier's own descriptor is open.\<close>
  "sample_world = \<lparr>efd = 5, interest = [], open_fds = [5], shut_fds = [],
     rx = (\<lambda>fd. []), tx_log = []\<rparr>"

definition sample_chaddr :: "byte list" where
  "sample_chaddr = [2, 0, 0, 0, 0, 1]"

definition packet_connection :: NDhcp4CConnection where
  \<comment> \<open>An Ethernet client without client identifier, after \<open>init\<close> and \<open>listen\<close>.\<close>
  "packet_connection =
     \<lparr>state = N_DHCP4_CONNECTION_STATE_PACKET, ifindex = 3, pfd = 3, ufd = - 1,
      htype = 1, hlen = 6, chaddr = sample_chaddr @ replicate 10 0,
      bhaddr = replicate 6 255 @ replicate 10 0,
      idlen = 0, id_bytes = [], request_broadcast = False, send_chaddr = True,
      mtu = 0, ciaddr = 0, siaddr = 0\<rparr>"

definition packet_world :: world where
  "packet_world = sample_world\<lparr>interest := [3], open_fds := [3, 5]\<rparr>"

definition draining_connection :: NDhcp4CConnection where
  "draining_connection =
     packet_connection\<lparr>state := N_DHCP4_CONNECTION_STATE_DRAINING, ufd := 4,
       ciaddr := 10, siaddr := 1\<rparr>"

definition udp_connection :: NDhcp4CConnection where
  "udp_connection =
     packet_connection\<lparr>state := N_DHCP4_CONNECTION_STATE_UDP, pfd := - 1, ufd := 4,
       ciaddr := 10, siaddr := 1\<rparr>"

definition draining_world :: world where
  "draining_world = sample_world\<lparr>interest := [4, 3], open_fds := [4, 3, 5], shut_fds := [3]\<rparr>"

definition udp_world :: world where
  "udp_world = sample_world\<lparr>interest := [4], open_fds := [4, 5]\<rparr>"

definition queued :: "world \<Rightarrow> int \<Rightarrow> rx_event list \<Rightarrow> world" where
  \<comment> \<open>The environment with the given events queued on a socket.\<close>
  "queued w fd events = w\<lparr>rx := (rx w)(fd := events)\<rparr>"

definition reply :: "32 word \<Rightarrow> byte list \<Rightarrow> NDhcp4Incoming" where
  \<comment> \<open>An inbound message with the given transaction id and hardware address, and no
      client identifier.\<close>
  "reply xid addr =
     \<lparr>in_header = zero_header\<lparr>hdr_op := 2, hdr_htype := 1, hdr_hlen := 6, hdr_xid := xid,
         hdr_chaddr := addr @ replicate 10 0\<rparr>,
      in_options = [(N_DHCP4_OPTION_MESSAGE_TYPE, [2])]\<rparr>"

definition sample_parser :: parser where
  \<comment> \<open>A stand-in for the codec's parser: four datagrams it accepts, all others are
      malformed.\<close>
  "sample_parser buf =
     (if buf = [1] then (0, Some (reply 1 sample_chaddr))
      else if buf = [2] then (0, Some (reply 2 sample_chaddr))
      else if buf = [3] then (0, Some (reply 3 [2, 0, 0, 0, 0, 2]))
      else if buf = [4]
      then (0, Some ((reply 4 sample_chaddr)
                       \<lparr>in_options := [(N_DHCP4_OPTION_CLIENT_IDENTIFIER, [0, 1, 2])]\<rparr>))
      else (- EINVAL, None))"

section \<open>Properties\<close>

subsection \<open>Auxiliary facts\<close>

lemma mem16_htons: "mem16 (htons x) = be16 x"
proof -
  have lo: "(ucast (push_bit 8 x OR drop_bit 8 x) :: byte) = ucast (drop_bit 8 x)"
    by (rule bit_word_eqI) (simp add: bit_simps)
  have hi: "(ucast (drop_bit 8 (push_bit 8 x OR drop_bit 8 x)) :: byte) = ucast x"
    by (rule bit_word_eqI) (auto simp add: bit_simps)
  show ?thesis
    unfolding mem16_def htons_def be16_def lo hi by (rule refl)
qed

lemma append_Inr:
  "n_dhcp4_outgoing_append m k d = Inr m' \<Longrightarrow>
     m' = m\<lparr>out_options := out_options m @ [(k, d)]\<rparr>"
  by (auto simp: n_dhcp4_outgoing_append_def split: if_splits)

lemma max_message_size_Inr:
  "max_message_size c t m = Inr m' \<Longrightarrow>
     out_options m' = out_options m @ max_message_size_options c t"
  by (cases "state c")
     (auto simp: max_message_size_def max_message_size_options_def mem16_htons
           dest!: append_Inr split: if_splits)

lemma new_message_options:
  assumes "n_dhcp4_c_connection_new_message grant c t = Returned (Inr m)"
  shows "out_options m =
           (N_DHCP4_OPTION_MESSAGE_TYPE, [t])
           # (if idlen c \<noteq> 0
              then [(N_DHCP4_OPTION_CLIENT_IDENTIFIER, take (idlen c) (id_bytes c))] else [])
           @ max_message_size_options c t"
  using assms
  by (auto simp: n_dhcp4_c_connection_new_message_def n_dhcp4_outgoing_new_def
        split: option.splits outcome.splits sum.splits if_splits
        dest!: append_Inr max_message_size_Inr)

lemma handed_over_same [simp]: "handed_over w w = []"
  by (simp add: handed_over_def)






lemmas option_codes =
  N_DHCP4_OPTION_REQUESTED_IP_ADDRESS_def N_DHCP4_OPTION_MESSAGE_TYPE_def
  N_DHCP4_OPTION_SERVER_IDENTIFIER_def N_DHCP4_OPTION_ERROR_MESSAGE_def
  N_DHCP4_OPTION_MAXIMUM_MESSAGE_SIZE_def N_DHCP4_OPTION_CLIENT_IDENTIFIER_def

lemmas message_types =
  N_DHCP4_MESSAGE_DISCOVER_def N_DHCP4_MESSAGE_REQUEST_def N_DHCP4_MESSAGE_DECLINE_def
  N_DHCP4_MESSAGE_RELEASE_def N_DHCP4_MESSAGE_INFORM_def

lemmas errnos =
  ENOENT_def EBADF_def EAGAIN_def ENOMEM_def EEXIST_def EINVAL_def ENODATA_def ENOBUFS_def

lemmas samples =
  sample_world_def sample_chaddr_def packet_connection_def packet_world_def
  draining_connection_def udp_connection_def draining_world_def udp_world_def queued_def
  reply_def sample_parser_def







lemmas factory_defs =
  n_dhcp4_c_connection_new_message_def n_dhcp4_outgoing_new_def
  n_dhcp4_c_connection_init_header_def n_dhcp4_outgoing_append_def options_size_def
  max_message_size_def n_dhcp4_c_connection_outgoing_set_xid_def
  n_dhcp4_c_connection_packet_broadcast_def n_dhcp4_c_connection_udp_broadcast_def
  n_dhcp4_c_connection_udp_send_def network_send_def on_outcome_def on_message_def
  append_error_def handed_over_def option_values_def zero_header_def Let_def

lemmas run_defs = factory_defs samples message_types option_codes
        errnos N_DHCP4_OVERLOAD_FILE_def N_DHCP4_OVERLOAD_SNAME_def N_DHCP4_OP_BOOTREQUEST_def
        N_DHCP4_NETWORK_UDP_MAX_SIZE_def mem16_def htons_def htonl_def mem32_def memcpy_def

lemmas dispatch_defs =
  n_dhcp4_c_connection_dispatch_def dispatch_switch_def switch_udp_def
  n_dhcp4_c_connection_dispatch_packet_def n_dhcp4_c_connection_dispatch_udp_def
  dispatch_recv_def packet_recv_udp_def sock_recv_def
  n_dhcp4_c_connection_verify_incoming_def n_dhcp4_incoming_get_header_def
  n_dhcp4_incoming_query_def memcmp_differs_def epoll_ctl_def close_fd_def Let_def

lemma sock_recv_empty:
  "fd \<in> set (open_fds w) \<Longrightarrow> rx w fd = [] \<Longrightarrow> sock_recv w fd = (Inl EAGAIN, w)"
  by (simp add: sock_recv_def)

lemma dispatch_packet_would_block:
  "pfd c \<in> set (open_fds w) \<Longrightarrow> rx w (pfd c) = [] \<Longrightarrow>
     n_dhcp4_c_connection_dispatch_packet parse c w = (- EAGAIN, None, w)"
  by (simp add: n_dhcp4_c_connection_dispatch_packet_def packet_recv_udp_def dispatch_recv_def
        sock_recv_empty)

lemma dispatch_udp_would_block:
  "ufd c \<in> set (open_fds w) \<Longrightarrow> rx w (ufd c) = [] \<Longrightarrow>
     n_dhcp4_c_connection_dispatch_udp parse c w = (- EAGAIN, None, w)"
  by (simp add: n_dhcp4_c_connection_dispatch_udp_def dispatch_recv_def sock_recv_empty)

lemma deregistered_and_closed:
  "fd \<in> set (open_fds w) \<Longrightarrow>
     fd \<notin> set (interest (close_fd (snd (epoll_ctl w EPOLL_CTL_DEL fd None)) fd))
     \<and> fd \<notin> set (open_fds (close_fd (snd (epoll_ctl w EPOLL_CTL_DEL fd None)) fd))"
  by (simp add: epoll_ctl_def close_fd_def)

lemma verify_incoming_Some:
  "n_dhcp4_c_connection_verify_incoming c (Some m)
     = Returned (if identity_mismatch c m then - EINVAL else 0)"
  by (auto simp: n_dhcp4_c_connection_verify_incoming_def identity_mismatch_def
        chaddr_matches_def client_identifier_def connection_id_def memcmp_differs_def
        n_dhcp4_incoming_get_header_def n_dhcp4_incoming_query_def Let_def errnos
        split: option.splits)

lemma dispatch_switch_identity:
  "dispatch_switch parse c w = Inr (mo, c', w') \<Longrightarrow>
     c' = c \<or> c' = c\<lparr>state := N_DHCP4_CONNECTION_STATE_UDP\<rparr>"
  by (auto simp: dispatch_switch_def switch_udp_def Let_def
        split: conn_state.splits prod.splits if_splits)

lemma identity_mismatch_state [simp]:
  "identity_mismatch (c\<lparr>state := s\<rparr>) m = identity_mismatch c m"
  by (simp add: identity_mismatch_def chaddr_matches_def connection_id_def)

lemmas lifecycle_defs =
  n_dhcp4_c_connection_init_def n_dhcp4_c_connection_listen_def
  n_dhcp4_c_connection_connect_def n_dhcp4_c_connection_deinit_def
  n_dhcp4_network_client_packet_socket_new_def n_dhcp4_network_client_udp_socket_new_def
  socket_new_def packet_shutdown_def epoll_ctl_def close_fd_def memcpy_def
  N_DHCP4_C_CONNECTION_NULL_def ARPHRD_INFINIBAND_def Let_def

text \<open>The sample connection in state PACKET is what \<open>init\<close> and \<open>listen\<close> produce.\<close>

lemma packet_connection_reached:
  "n_dhcp4_c_connection_init N_DHCP4_C_CONNECTION_NULL 3 1 6 sample_chaddr (replicate 6 255)
       0 [] False
     = (0, packet_connection\<lparr>state := N_DHCP4_CONNECTION_STATE_INIT, pfd := - 1\<rparr>)
   \<and> n_dhcp4_c_connection_listen (0, 3) None
       (packet_connection\<lparr>state := N_DHCP4_CONNECTION_STATE_INIT, pfd := - 1\<rparr>) sample_world
     = Returned (0, packet_connection, packet_world)"
  by (simp add: lifecycle_defs samples)

text \<open>\<open>init\<close> stores every parameter but \<open>idlen\<close>: the field keeps its old value.\<close>

lemma init_keeps_idlen:
  "idlen (snd (n_dhcp4_c_connection_init c i ht hl ch bh n b rb)) = idlen c"
  by (simp add: n_dhcp4_c_connection_init_def Let_def)

lemma epoll_ctl_open_fds [simp]:
  "open_fds (snd (epoll_ctl w op fd fault)) = open_fds w"
  by (simp add: epoll_ctl_def split: option.splits epoll_op.splits)

lemma epoll_ctl_efd [simp]:
  "efd (snd (epoll_ctl w op fd fault)) = efd w"
  by (simp add: epoll_ctl_def split: option.splits epoll_op.splits)

lemma epoll_add_cases:
  "epoll_ctl w EPOLL_CTL_ADD fd fault = (res, w') \<Longrightarrow>
     (res \<noteq> None \<and> w' = w) \<or> (res = None \<and> w' = w\<lparr>interest := fd # interest w\<rparr>)"
  by (auto simp: epoll_ctl_def split: option.splits if_splits)


lemma connect_cases:
  assumes "n_dhcp4_c_connection_connect sock ep_fault shut c w client server
             = Returned (r, c', w')"
  shows "state c = N_DHCP4_CONNECTION_STATE_PACKET
     \<and> ((fst sock < 0 \<and> r = fst sock \<and> c' = c \<and> w' = w)
        \<or> (\<not> fst sock < 0 \<and> c' = c\<lparr>ufd := snd sock\<rparr>
            \<and> w' = w\<lparr>open_fds := snd sock # open_fds w\<rparr>)
        \<or> (\<not> fst sock < 0 \<and> shut < 0 \<and> r = shut \<and> c' = c\<lparr>ufd := snd sock\<rparr>
            \<and> w' = w\<lparr>open_fds := snd sock # open_fds w, interest := pfd c # interest w\<rparr>)
        \<or> (\<not> fst sock < 0 \<and> \<not> shut < 0 \<and> r = 0
            \<and> c' = c\<lparr>ufd := snd sock, ciaddr := client, siaddr := server,
                      state := N_DHCP4_CONNECTION_STATE_DRAINING\<rparr>
            \<and> w' = w\<lparr>open_fds := snd sock # open_fds w, interest := pfd c # interest w,
                       shut_fds := pfd c # shut_fds w\<rparr>))"
proof -
  obtain r0 fd where sock: "sock = (r0, fd)" by (cases sock)
  have st: "state c = N_DHCP4_CONNECTION_STATE_PACKET"
    using assms by (simp add: n_dhcp4_c_connection_connect_def split: if_splits)
  show ?thesis
  proof (cases "r0 < 0")
    case True
    with assms st sock show ?thesis
      by (simp add: n_dhcp4_c_connection_connect_def
            n_dhcp4_network_client_udp_socket_new_def socket_new_def)
  next
    case False
    obtain res w2 where ep: "epoll_ctl (w\<lparr>open_fds := fd # open_fds w\<rparr>) EPOLL_CTL_ADD (pfd c)
        ep_fault = (res, w2)"
      by (cases "epoll_ctl (w\<lparr>open_fds := fd # open_fds w\<rparr>) EPOLL_CTL_ADD (pfd c) ep_fault")
    from epoll_add_cases [OF ep] show ?thesis
    proof
      assume "res \<noteq> None \<and> w2 = w\<lparr>open_fds := fd # open_fds w\<rparr>"
      with assms st sock False ep show ?thesis
        by (auto simp: n_dhcp4_c_connection_connect_def
              n_dhcp4_network_client_udp_socket_new_def socket_new_def Let_def)
    next
      assume "res = None \<and> w2 = w\<lparr>open_fds := fd # open_fds w\<rparr>
                \<lparr>interest := pfd c # interest (w\<lparr>open_fds := fd # open_fds w\<rparr>)\<rparr>"
      with assms st sock False ep show ?thesis
        by (auto simp: n_dhcp4_c_connection_connect_def
              n_dhcp4_network_client_udp_socket_new_def socket_new_def packet_shutdown_def
              Let_def split: if_splits)
    qed
  qed
qed

lemma sock_recv_datagram:
  "fd \<in> set (open_fds w) \<Longrightarrow> rx w fd = Datagram bs # q \<Longrightarrow>
     sock_recv w fd = (Inr (take (2 ^ 16) bs), w\<lparr>rx := (rx w)(fd := q)\<rparr>)"
  by (simp add: sock_recv_def)

text \<open>A read of zero bytes faults in every state that reads.\<close>

lemma dispatch_zero_length:
  assumes "fd \<in> set (open_fds w)" and "rx w fd = Datagram [] # q"
    and "state c = N_DHCP4_CONNECTION_STATE_PACKET \<and> fd = pfd c
         \<or> state c = N_DHCP4_CONNECTION_STATE_DRAINING \<and> fd = pfd c
         \<or> state c = N_DHCP4_CONNECTION_STATE_UDP \<and> fd = ufd c"
  shows "n_dhcp4_c_connection_dispatch parse c w = Faulted"
  using assms
  by (auto simp: n_dhcp4_c_connection_dispatch_def dispatch_switch_def switch_udp_def
        n_dhcp4_c_connection_dispatch_packet_def n_dhcp4_c_connection_dispatch_udp_def
        packet_recv_udp_def dispatch_recv_def sock_recv_datagram
        n_dhcp4_c_connection_verify_incoming_def)

text \<open>A parse error is the return code of \<open>dispatch\<close> in every state that reads.\<close>

lemma dispatch_parse_error:
  assumes "fd \<in> set (open_fds w)" and "rx w fd = Datagram bs # q" and "bs \<noteq> []"
    and "parse (take (2 ^ 16) bs) = (r, m)" and "r < 0"
    and "state c = N_DHCP4_CONNECTION_STATE_PACKET \<and> fd = pfd c
         \<or> state c = N_DHCP4_CONNECTION_STATE_DRAINING \<and> fd = pfd c \<and> r \<noteq> - EAGAIN
         \<or> state c = N_DHCP4_CONNECTION_STATE_UDP \<and> fd = ufd c"
  shows "n_dhcp4_c_connection_dispatch parse c w
           = Returned (r, None, c, w\<lparr>rx := (rx w)(fd := q)\<rparr>)"
proof -
  have "bs \<noteq> [] \<Longrightarrow> take (2 ^ 16) bs \<noteq> []"
    by (cases bs) simp_all
  with assms(3) have len: "length (take (2 ^ 16) bs) \<noteq> 0"
    by (simp only: length_0_conv not_False_eq_True)
  from assms(1,2,4,5,6) len show ?thesis
    by (auto simp del: length_take length_0_conv take_eq_Nil
          simp: n_dhcp4_c_connection_dispatch_def dispatch_switch_def switch_udp_def
          n_dhcp4_c_connection_dispatch_packet_def n_dhcp4_c_connection_dispatch_udp_def
          packet_recv_udp_def dispatch_recv_def sock_recv_datagram)
qed

text \<open>
  While a datagram is queued on the packet socket, \<open>dispatch\<close> in state DRAINING reads that
  socket only: the state stays DRAINING and every other queue is untouched.
\<close>

lemma draining_reads_packet_socket_first:
  assumes "state c = N_DHCP4_CONNECTION_STATE_DRAINING" and "pfd c \<in> set (open_fds w)"
    and "rx w (pfd c) = Datagram bs # q" and "fst (parse (take (2 ^ 16) bs)) \<noteq> - EAGAIN"
    and "n_dhcp4_c_connection_dispatch parse c w = Returned (r, m, c', w')"
  shows "c' = c \<and> w' = w\<lparr>rx := (rx w)(pfd c := q)\<rparr>"
  using assms
  by (auto simp: n_dhcp4_c_connection_dispatch_def dispatch_switch_def
        n_dhcp4_c_connection_dispatch_packet_def
        packet_recv_udp_def dispatch_recv_def sock_recv_datagram errnos
        split: prod.splits if_splits outcome.splits)

text \<open>\<open>connect\<close> never adds a descriptor other than \<open>pfd\<close> to the notifier.\<close>

lemma connect_registers_only_pfd:
  assumes "n_dhcp4_c_connection_connect sock ep_fault shut c w client server
             = Returned (r, c', w')"
  shows "set (interest w') \<subseteq> insert (pfd c) (set (interest w))"
  using connect_cases [OF assms] by auto

text \<open>\<open>dispatch\<close> never assigns \<open>pfd\<close>.\<close>

lemma dispatch_keeps_pfd:
  assumes "n_dhcp4_c_connection_dispatch parse c w = Returned (r, m, c', w')"
  shows "pfd c' = pfd c"
proof -
  from assms have "(\<exists>r'. dispatch_switch parse c w = Inl (r', c', w'))
      \<or> (\<exists>m'. dispatch_switch parse c w = Inr (m', c', w'))"
    by (auto simp: n_dhcp4_c_connection_dispatch_def
          split: sum.splits prod.splits outcome.splits if_splits)
  then have "c' = c \<or> c' = c\<lparr>state := N_DHCP4_CONNECTION_STATE_UDP\<rparr>"
    by (auto simp: dispatch_switch_def switch_udp_def Let_def
          split: conn_state.splits prod.splits if_splits)
  then show ?thesis by auto
qed

subsection \<open>C1: what \<open>connect\<close> registers\<close>

text \<open>
  C1. A successful \<open>connect\<close> in state PACKET should register the UDP descriptor on the
  notifier and leave the registration of the packet descriptor alone. The code hands
  \<open>pfd\<close>, not \<open>ufd\<close>, to \<open>EPOLL_CTL_ADD\<close>. After \<open>listen\<close> (descriptor 3 registered) a
  \<open>connect\<close> whose socket is created as descriptor 4 therefore fails with EEXIST and
  leaves state PACKET; and on a notifier that does not hold 3, \<open>connect\<close> succeeds,
  registers 3 and leaves 4 unregistered.
\<close>

theorem connect_registers_packet_descriptor:
  "n_dhcp4_c_connection_connect (0, 4) None 0 packet_connection packet_world 10 1
     = Returned (- EEXIST, packet_connection\<lparr>ufd := 4\<rparr>, packet_world\<lparr>open_fds := [4, 3, 5]\<rparr>)
   \<and> n_dhcp4_c_connection_connect (0, 4) None 0 packet_connection
       (packet_world\<lparr>interest := []\<rparr>) 10 1
     = Returned (0, draining_connection,
         packet_world\<lparr>interest := [3], open_fds := [4, 3, 5], shut_fds := [3]\<rparr>)
   \<and> ufd draining_connection = 4
   \<and> 4 \<notin> set (interest (packet_world\<lparr>interest := [3], open_fds := [4, 3, 5],
                              shut_fds := [3]\<rparr>))"
  by (simp add: lifecycle_defs samples errnos)

subsection \<open>C2: the client identifier of outgoing messages\<close>

text \<open>
  C2. After an initialisation with a client identifier of \<open>n > 0\<close> bytes every outgoing
  message should carry that identifier. \<open>init\<close> copies the bytes but does not store
  \<open>idlen\<close>: initialised with the seven bytes 1..7, the connection has \<open>idlen = 0\<close>, and
  the DISCOVER it broadcasts after \<open>listen\<close> carries the MESSAGE_TYPE option only.
\<close>

theorem client_identifier_is_never_sent:
  "n_dhcp4_c_connection_init N_DHCP4_C_CONNECTION_NULL 3 1 6 sample_chaddr (replicate 6 255)
       7 [1, 2, 3, 4, 5, 6, 7] False
     = (0, packet_connection\<lparr>state := N_DHCP4_CONNECTION_STATE_INIT, pfd := - 1,
             id_bytes := [1, 2, 3, 4, 5, 6, 7]\<rparr>)
   \<and> idlen (packet_connection\<lparr>state := N_DHCP4_CONNECTION_STATE_INIT, pfd := - 1,
             id_bytes := [1, 2, 3, 4, 5, 6, 7]\<rparr>) = 0
   \<and> n_dhcp4_c_connection_listen (0, 3) None
       (packet_connection\<lparr>state := N_DHCP4_CONNECTION_STATE_INIT, pfd := - 1,
          id_bytes := [1, 2, 3, 4, 5, 6, 7]\<rparr>) sample_world
     = Returned (0, packet_connection\<lparr>id_bytes := [1, 2, 3, 4, 5, 6, 7]\<rparr>, packet_world)
   \<and> n_dhcp4_c_connection_discover (Some 312) 0
       (packet_connection\<lparr>id_bytes := [1, 2, 3, 4, 5, 6, 7]\<rparr>) packet_world 0xDEADBEEF 1
     = Returned (0, packet_world\<lparr>tx_log :=
         [\<lparr>tx_transport = PACKET_BROADCAST, tx_fd = 3,
           tx_message =
             \<lparr>out_header = \<lparr>hdr_op = 1, hdr_htype = 1, hdr_hlen = 6, hdr_xid = 0xDEADBEEF,
                 hdr_secs = 0x01000000, hdr_flags = 0, hdr_ciaddr = 0,
                 hdr_chaddr = sample_chaddr @ replicate 10 0\<rparr>,
              out_options = [(N_DHCP4_OPTION_MESSAGE_TYPE, [N_DHCP4_MESSAGE_DISCOVER])],
              out_overload = 3, out_room = 312\<rparr>,
           tx_result = 0\<rparr>]\<rparr>)"
  by (simp add: lifecycle_defs n_dhcp4_c_connection_discover_def run_defs)

subsection \<open>C3: malformed datagrams\<close>

text \<open>
  C3. A datagram that fails to parse should be dropped, \<open>dispatch\<close> returning "no
  message". The code returns the parser's error code from \<open>dispatch\<close>, in each of the
  states PACKET, DRAINING and UDP (the places marked XXX in the source).
\<close>

theorem malformed_datagram_is_returned_as_error:
  "n_dhcp4_c_connection_dispatch sample_parser packet_connection
       (queued packet_world 3 [Datagram [255]])
     = Returned (- EINVAL, None, packet_connection, queued packet_world 3 [])
   \<and> n_dhcp4_c_connection_dispatch sample_parser draining_connection
       (queued draining_world 3 [Datagram [255]])
     = Returned (- EINVAL, None, draining_connection, queued draining_world 3 [])
   \<and> n_dhcp4_c_connection_dispatch sample_parser udp_connection
       (queued udp_world 4 [Datagram [255]])
     = Returned (- EINVAL, None, udp_connection, queued udp_world 4 [])"
  by (simp add: dispatch_defs samples errnos)

subsection \<open>C4: reads that would block\<close>

text \<open>
  C4, as stated: in state PACKET or UDP a read that would block makes \<open>dispatch\<close> return
  "no message" successfully. The code returns the error \<open>-EAGAIN\<close>.
\<close>

theorem would_block_counterexample:
  "n_dhcp4_c_connection_dispatch sample_parser packet_connection packet_world
     = Returned (- EAGAIN, None, packet_connection, packet_world)
   \<and> n_dhcp4_c_connection_dispatch sample_parser udp_connection udp_world
     = Returned (- EAGAIN, None, udp_connection, udp_world)
   \<and> - EAGAIN \<noteq> (0 :: int)"
  by (simp add: dispatch_defs samples errnos)

text \<open>
  C4, amended: in state PACKET or UDP, a read that would block makes \<open>dispatch\<close> return
  the error \<open>-EAGAIN\<close> and leaves the connection and the environment as they were. Only
  in state DRAINING does a packet socket that would block drive the transition: \<open>pfd\<close> is
  deregistered and closed, and \<open>dispatch\<close> goes on as a dispatch in state UDP.
\<close>

theorem would_block:
  "(state c = N_DHCP4_CONNECTION_STATE_PACKET \<and> pfd c \<in> set (open_fds w) \<and> rx w (pfd c) = []
      \<longrightarrow> n_dhcp4_c_connection_dispatch parse c w = Returned (- EAGAIN, None, c, w))
   \<and> (state c = N_DHCP4_CONNECTION_STATE_UDP \<and> ufd c \<in> set (open_fds w) \<and> rx w (ufd c) = []
      \<longrightarrow> n_dhcp4_c_connection_dispatch parse c w = Returned (- EAGAIN, None, c, w))
   \<and> (state c = N_DHCP4_CONNECTION_STATE_DRAINING \<and> pfd c \<in> set (open_fds w)
        \<and> rx w (pfd c) = []
      \<longrightarrow> (let w' = close_fd (snd (epoll_ctl w EPOLL_CTL_DEL (pfd c) None)) (pfd c)
           in n_dhcp4_c_connection_dispatch parse c w
                = n_dhcp4_c_connection_dispatch parse
                    (c\<lparr>state := N_DHCP4_CONNECTION_STATE_UDP\<rparr>) w'
              \<and> pfd c \<notin> set (interest w') \<and> pfd c \<notin> set (open_fds w')))"
proof (intro conjI impI)
  assume "state c = N_DHCP4_CONNECTION_STATE_PACKET \<and> pfd c \<in> set (open_fds w)
            \<and> rx w (pfd c) = []"
  then show "n_dhcp4_c_connection_dispatch parse c w = Returned (- EAGAIN, None, c, w)"
    by (simp add: n_dhcp4_c_connection_dispatch_def dispatch_switch_def
          dispatch_packet_would_block errnos)
next
  assume "state c = N_DHCP4_CONNECTION_STATE_UDP \<and> ufd c \<in> set (open_fds w)
            \<and> rx w (ufd c) = []"
  then show "n_dhcp4_c_connection_dispatch parse c w = Returned (- EAGAIN, None, c, w)"
    by (simp add: n_dhcp4_c_connection_dispatch_def dispatch_switch_def switch_udp_def
          dispatch_udp_would_block errnos)
next
  assume a: "state c = N_DHCP4_CONNECTION_STATE_DRAINING \<and> pfd c \<in> set (open_fds w)
            \<and> rx w (pfd c) = []"
  then have "dispatch_switch parse c w
      = dispatch_switch parse (c\<lparr>state := N_DHCP4_CONNECTION_STATE_UDP\<rparr>)
          (close_fd (snd (epoll_ctl w EPOLL_CTL_DEL (pfd c) None)) (pfd c))"
    by (simp add: dispatch_switch_def dispatch_packet_would_block errnos Let_def)
  with a show "let w' = close_fd (snd (epoll_ctl w EPOLL_CTL_DEL (pfd c) None)) (pfd c)
      in n_dhcp4_c_connection_dispatch parse c w
           = n_dhcp4_c_connection_dispatch parse
               (c\<lparr>state := N_DHCP4_CONNECTION_STATE_UDP\<rparr>) w'
         \<and> pfd c \<notin> set (interest w') \<and> pfd c \<notin> set (open_fds w')"
    by (simp add: n_dhcp4_c_connection_dispatch_def deregistered_and_closed Let_def)
qed

theorem would_block_witness:
  "(state packet_connection = N_DHCP4_CONNECTION_STATE_PACKET
      \<and> pfd packet_connection \<in> set (open_fds packet_world)
      \<and> rx packet_world (pfd packet_connection) = []
      \<and> n_dhcp4_c_connection_dispatch sample_parser packet_connection packet_world
          = Returned (- 11, None, packet_connection, packet_world))
   \<and> (state udp_connection = N_DHCP4_CONNECTION_STATE_UDP
      \<and> ufd udp_connection \<in> set (open_fds udp_world)
      \<and> rx udp_world (ufd udp_connection) = []
      \<and> n_dhcp4_c_connection_dispatch sample_parser udp_connection udp_world
          = Returned (- 11, None, udp_connection, udp_world))
   \<and> (state draining_connection = N_DHCP4_CONNECTION_STATE_DRAINING
      \<and> pfd draining_connection \<in> set (open_fds (queued draining_world 4 [Datagram [2]]))
      \<and> rx (queued draining_world 4 [Datagram [2]]) (pfd draining_connection) = []
      \<and> n_dhcp4_c_connection_dispatch sample_parser draining_connection
            (queued draining_world 4 [Datagram [2]])
          = Returned (0, Some (reply 2 sample_chaddr),
              draining_connection\<lparr>state := N_DHCP4_CONNECTION_STATE_UDP\<rparr>,
              (queued (queued draining_world 4 [Datagram [2]]) 4 [])
                \<lparr>interest := [4], open_fds := [4, 5]\<rparr>))"
proof -
  have h1: "state packet_connection = N_DHCP4_CONNECTION_STATE_PACKET
      \<and> pfd packet_connection \<in> set (open_fds packet_world)
      \<and> rx packet_world (pfd packet_connection) = []"
    by (simp add: samples)
  have h2: "state udp_connection = N_DHCP4_CONNECTION_STATE_UDP
      \<and> ufd udp_connection \<in> set (open_fds udp_world)
      \<and> rx udp_world (ufd udp_connection) = []"
    by (simp add: samples)
  have h3: "state draining_connection = N_DHCP4_CONNECTION_STATE_DRAINING
      \<and> pfd draining_connection \<in> set (open_fds (queued draining_world 4 [Datagram [2]]))
      \<and> rx (queued draining_world 4 [Datagram [2]]) (pfd draining_connection) = []"
    by (simp add: samples)
  have c1: "n_dhcp4_c_connection_dispatch sample_parser packet_connection packet_world
          = Returned (- 11, None, packet_connection, packet_world)"
    using h1 would_block [of packet_connection packet_world sample_parser]
    by (simp add: errnos)
  have c2: "n_dhcp4_c_connection_dispatch sample_parser udp_connection udp_world
          = Returned (- 11, None, udp_connection, udp_world)"
    using h2 would_block [of udp_connection udp_world sample_parser]
    by (simp add: errnos)
  have udp: "n_dhcp4_c_connection_dispatch sample_parser
        (draining_connection\<lparr>state := N_DHCP4_CONNECTION_STATE_UDP\<rparr>)
        (close_fd (snd (epoll_ctl (queued draining_world 4 [Datagram [2]]) EPOLL_CTL_DEL
                          (pfd draining_connection) None)) (pfd draining_connection))
      = Returned (0, Some (reply 2 sample_chaddr),
              draining_connection\<lparr>state := N_DHCP4_CONNECTION_STATE_UDP\<rparr>,
              (queued (queued draining_world 4 [Datagram [2]]) 4 [])
                \<lparr>interest := [4], open_fds := [4, 5]\<rparr>)"
    by (simp add: dispatch_defs samples errnos option_codes)
  have c3: "n_dhcp4_c_connection_dispatch sample_parser draining_connection
            (queued draining_world 4 [Datagram [2]])
          = Returned (0, Some (reply 2 sample_chaddr),
              draining_connection\<lparr>state := N_DHCP4_CONNECTION_STATE_UDP\<rparr>,
              (queued (queued draining_world 4 [Datagram [2]]) 4 [])
                \<lparr>interest := [4], open_fds := [4, 5]\<rparr>)"
    using h3 udp
      would_block [of draining_connection "queued draining_world 4 [Datagram [2]]" sample_parser]
    by (simp add: Let_def)
  show ?thesis
    using h1 h2 h3 c1 c2 c3 by blast
qed

subsection \<open>C5: a failing \<open>connect\<close>\<close>




subsection \<open>C6: reads of zero bytes\<close>

text \<open>
  C6. A read of zero bytes should make \<open>dispatch\<close> return "no message". The code leaves
  the switch with a null message and hands it to \<open>verify_incoming\<close>, which reads its
  header.
\<close>

theorem empty_read_reaches_verification:
  "n_dhcp4_c_connection_dispatch sample_parser packet_connection
       (queued packet_world 3 [Datagram []]) = Faulted
   \<and> n_dhcp4_c_connection_dispatch sample_parser draining_connection
       (queued draining_world 3 [Datagram []]) = Faulted
   \<and> n_dhcp4_c_connection_dispatch sample_parser udp_connection
       (queued udp_world 4 [Datagram []]) = Faulted"
  by (simp add: dispatch_defs samples errnos)

subsection \<open>C7: draining\<close>

text \<open>
  C7. With one datagram queued on the packet socket and one on the UDP socket, \<open>dispatch\<close>
  in state DRAINING returns the two messages in that order, and with the second call it
  deregisters and closes the packet descriptor and enters state UDP. The claim has \<open>pfd\<close>
  set to -1 at that point; the code leaves the number of the closed descriptor in \<open>pfd\<close>.
\<close>

theorem drained_packet_descriptor_is_kept:
  "n_dhcp4_c_connection_dispatch sample_parser draining_connection
       (queued (queued draining_world 4 [Datagram [2]]) 3 [Datagram [1]])
     = Returned (0, Some (reply 1 sample_chaddr), draining_connection,
         queued (queued draining_world 4 [Datagram [2]]) 3 [])
   \<and> n_dhcp4_c_connection_dispatch sample_parser draining_connection
       (queued (queued draining_world 4 [Datagram [2]]) 3 [])
     = Returned (0, Some (reply 2 sample_chaddr),
         draining_connection\<lparr>state := N_DHCP4_CONNECTION_STATE_UDP\<rparr>,
         (queued (queued (queued draining_world 4 [Datagram [2]]) 3 []) 4 [])
           \<lparr>interest := [4], open_fds := [4, 5]\<rparr>)
   \<and> pfd (draining_connection\<lparr>state := N_DHCP4_CONNECTION_STATE_UDP\<rparr>) = 3"
  by (simp add: dispatch_defs samples errnos option_codes)

subsection \<open>C8: identity verification\<close>

text \<open>
  C8. Whenever the switch of \<open>dispatch\<close> leaves with a parsed message whose \<open>chaddr\<close>
  differs from the connection's over \<open>hlen\<close> bytes, or whose client identifier (absent
  counting as empty) differs from the connection's in length or in bytes, \<open>dispatch\<close>
  returns 0 and no message; and every message \<open>dispatch\<close> returns matches the
  connection's \<open>chaddr\<close> over \<open>hlen\<close> bytes and carries the connection's client identifier.
\<close>

theorem dispatch_identity_verification:
  "(dispatch_switch parse c w = Inr (Some m, c', w') \<and> identity_mismatch c m
      \<longrightarrow> n_dhcp4_c_connection_dispatch parse c w = Returned (0, None, c', w'))
   \<and> (n_dhcp4_c_connection_dispatch parse c w = Returned (r, Some m, c', w')
      \<longrightarrow> r = 0 \<and> chaddr_matches c m \<and> client_identifier m = connection_id c)"
proof (rule conjI; rule impI)
  assume a: "dispatch_switch parse c w = Inr (Some m, c', w') \<and> identity_mismatch c m"
  then have "identity_mismatch c' m"
    using dispatch_switch_identity [of parse c w "Some m" c' w'] by auto
  with a show "n_dhcp4_c_connection_dispatch parse c w = Returned (0, None, c', w')"
    by (simp add: n_dhcp4_c_connection_dispatch_def verify_incoming_Some errnos)
next
  assume a: "n_dhcp4_c_connection_dispatch parse c w = Returned (r, Some m, c', w')"
  then have sw: "dispatch_switch parse c w = Inr (Some m, c', w')"
    and v: "n_dhcp4_c_connection_verify_incoming c' (Some m) = Returned 0 \<or>
            (\<exists>r'. n_dhcp4_c_connection_verify_incoming c' (Some m) = Returned r' \<and> \<not> r' < 0)"
    and r: "r = 0"
    by (auto simp: n_dhcp4_c_connection_dispatch_def
          split: sum.splits prod.splits outcome.splits if_splits)
  from v have "\<not> identity_mismatch c' m"
    by (auto simp: verify_incoming_Some errnos split: if_splits)
  then have "\<not> identity_mismatch c m"
    using dispatch_switch_identity [OF sw] by auto
  with r show "r = 0 \<and> chaddr_matches c m \<and> client_identifier m = connection_id c"
    by (simp add: identity_mismatch_def)
qed

theorem dispatch_identity_verification_witness:
  "(dispatch_switch sample_parser packet_connection (queued packet_world 3 [Datagram [3]])
       = Inr (Some (reply 3 [2, 0, 0, 0, 0, 2]), packet_connection, queued packet_world 3 [])
     \<and> identity_mismatch packet_connection (reply 3 [2, 0, 0, 0, 0, 2])
     \<and> n_dhcp4_c_connection_dispatch sample_parser packet_connection
          (queued packet_world 3 [Datagram [3]])
       = Returned (0, None, packet_connection, queued packet_world 3 []))
   \<and> (n_dhcp4_c_connection_dispatch sample_parser packet_connection
          (queued packet_world 3 [Datagram [1]])
       = Returned (0, Some (reply 1 sample_chaddr), packet_connection, queued packet_world 3 [])
     \<and> chaddr_matches packet_connection (reply 1 sample_chaddr)
     \<and> client_identifier (reply 1 sample_chaddr) = connection_id packet_connection)"
proof -
  have sw: "dispatch_switch sample_parser packet_connection (queued packet_world 3 [Datagram [3]])
       = Inr (Some (reply 3 [2, 0, 0, 0, 0, 2]), packet_connection, queued packet_world 3 [])"
    by (simp add: dispatch_defs samples errnos)
  have mm: "identity_mismatch packet_connection (reply 3 [2, 0, 0, 0, 0, 2])"
    by (simp add: identity_mismatch_def chaddr_matches_def samples zero_header_def)
  have ok: "n_dhcp4_c_connection_dispatch sample_parser packet_connection
          (queued packet_world 3 [Datagram [1]])
       = Returned (0, Some (reply 1 sample_chaddr), packet_connection, queued packet_world 3 [])"
    by (simp add: dispatch_defs samples errnos option_codes)
  note t = dispatch_identity_verification [where parse = sample_parser and c = packet_connection]
  have drop: "n_dhcp4_c_connection_dispatch sample_parser packet_connection
          (queued packet_world 3 [Datagram [3]])
       = Returned (0, None, packet_connection, queued packet_world 3 [])"
    using sw mm t [where w = "queued packet_world 3 [Datagram [3]]"
                     and m = "reply 3 [2, 0, 0, 0, 0, 2]" and c' = packet_connection
                     and w' = "queued packet_world 3 []"]
    by blast
  have match: "chaddr_matches packet_connection (reply 1 sample_chaddr)
     \<and> client_identifier (reply 1 sample_chaddr) = connection_id packet_connection"
    using ok t [where w = "queued packet_world 3 [Datagram [1]]"
                  and m = "reply 1 sample_chaddr" and c' = packet_connection
                  and w' = "queued packet_world 3 []" and r = 0]
    by blast
  show ?thesis
    using sw mm drop ok match by blast
qed

subsection \<open>C10: the server identifier, by phase\<close>



subsection \<open>C9: the maximum message size\<close>

text \<open>
  C9. A message built for DISCOVER, REQUEST or INFORM, and no message of another type,
  carries exactly one MAXIMUM_MESSAGE_SIZE option if and only if the state is DRAINING or
  UDP, or the state is INIT or PACKET and \<open>mtu > 0\<close>; its two bytes are, in network byte
  order, N_DHCP4_NETWORK_UDP_MAX_SIZE (576) in the first case and the connection's \<open>mtu\<close> in
  the second. Stated on the list of all values of that option in the message built.
\<close>

theorem maximum_message_size_option:
  assumes "n_dhcp4_c_connection_new_message grant c t = Returned (Inr m)"
  shows "option_values N_DHCP4_OPTION_MAXIMUM_MESSAGE_SIZE m =
           (if t = N_DHCP4_MESSAGE_DISCOVER \<or> t = N_DHCP4_MESSAGE_REQUEST
               \<or> t = N_DHCP4_MESSAGE_INFORM
            then (if state c = N_DHCP4_CONNECTION_STATE_DRAINING
                     \<or> state c = N_DHCP4_CONNECTION_STATE_UDP
                  then [be16 576]
                  else if mtu c > 0 then [be16 (mtu c)] else [])
            else [])"
proof -
  have "out_options m =
          (N_DHCP4_OPTION_MESSAGE_TYPE, [t])
          # (if idlen c \<noteq> 0
             then [(N_DHCP4_OPTION_CLIENT_IDENTIFIER, take (idlen c) (id_bytes c))] else [])
          @ max_message_size_options c t"
    using assms by (rule new_message_options)
  then show ?thesis
    by (simp add: option_values_def max_message_size_options_def option_codes
          N_DHCP4_NETWORK_UDP_MAX_SIZE_def)
qed

theorem maximum_message_size_option_witness:
  "(\<exists>m. n_dhcp4_c_connection_new_message (Some 312) (packet_connection\<lparr>mtu := 1500\<rparr>)
           N_DHCP4_MESSAGE_DISCOVER = Returned (Inr m)
        \<and> option_values N_DHCP4_OPTION_MAXIMUM_MESSAGE_SIZE m = [[5, 220]])
   \<and> (\<exists>m. n_dhcp4_c_connection_new_message (Some 312) packet_connection
           N_DHCP4_MESSAGE_DISCOVER = Returned (Inr m)
        \<and> option_values N_DHCP4_OPTION_MAXIMUM_MESSAGE_SIZE m = [])
   \<and> (\<exists>m. n_dhcp4_c_connection_new_message (Some 312) (udp_connection\<lparr>mtu := 1500\<rparr>)
           N_DHCP4_MESSAGE_REQUEST = Returned (Inr m)
        \<and> option_values N_DHCP4_OPTION_MAXIMUM_MESSAGE_SIZE m = [[2, 64]])
   \<and> (\<exists>m. n_dhcp4_c_connection_new_message (Some 312) (udp_connection\<lparr>mtu := 1500\<rparr>)
           N_DHCP4_MESSAGE_RELEASE = Returned (Inr m)
        \<and> option_values N_DHCP4_OPTION_MAXIMUM_MESSAGE_SIZE m = [])"
proof -
  have bytes: "be16 1500 = [5, 220]" "be16 576 = [2, 64]"
    by (simp_all add: be16_def)
  have states: "state (packet_connection\<lparr>mtu := 1500\<rparr>) = N_DHCP4_CONNECTION_STATE_PACKET"
    "state packet_connection = N_DHCP4_CONNECTION_STATE_PACKET"
    "state (udp_connection\<lparr>mtu := 1500\<rparr>) = N_DHCP4_CONNECTION_STATE_UDP"
    "mtu (packet_connection\<lparr>mtu := 1500\<rparr>) = 1500" "mtu packet_connection = 0"
    by (simp_all add: samples)
  obtain m1 where m1: "n_dhcp4_c_connection_new_message (Some 312)
      (packet_connection\<lparr>mtu := 1500\<rparr>) N_DHCP4_MESSAGE_DISCOVER = Returned (Inr m1)"
    by (simp add: run_defs)
  obtain m2 where m2: "n_dhcp4_c_connection_new_message (Some 312) packet_connection
      N_DHCP4_MESSAGE_DISCOVER = Returned (Inr m2)"
    by (simp add: run_defs)
  obtain m3 where m3: "n_dhcp4_c_connection_new_message (Some 312)
      (udp_connection\<lparr>mtu := 1500\<rparr>) N_DHCP4_MESSAGE_REQUEST = Returned (Inr m3)"
    by (simp add: run_defs)
  obtain m4 where m4: "n_dhcp4_c_connection_new_message (Some 312)
      (udp_connection\<lparr>mtu := 1500\<rparr>) N_DHCP4_MESSAGE_RELEASE = Returned (Inr m4)"
    by (simp add: run_defs)
  have "option_values N_DHCP4_OPTION_MAXIMUM_MESSAGE_SIZE m1 = [[5, 220]]"
    using maximum_message_size_option [OF m1] bytes states by (simp add: message_types)
  moreover have "option_values N_DHCP4_OPTION_MAXIMUM_MESSAGE_SIZE m2 = []"
    using maximum_message_size_option [OF m2] bytes states by (simp add: message_types)
  moreover have "option_values N_DHCP4_OPTION_MAXIMUM_MESSAGE_SIZE m3 = [[2, 64]]"
    using maximum_message_size_option [OF m3] bytes states by (simp add: message_types)
  moreover have "option_values N_DHCP4_OPTION_MAXIMUM_MESSAGE_SIZE m4 = []"
    using maximum_message_size_option [OF m4] bytes states by (simp add: message_types)
  ultimately show ?thesis
    using m1 m2 m3 m4 by blast
qed

end
